theory Spec2Isabelle
  imports Main "HOL-Library.Word"
begin

section \<open>Values shared by the whole program\<close>

text \<open>
  The program is one Go file, \<^verbatim>\<open>main.go\<close>: a static file server with a logging
  middleware (\<^verbatim>\<open>RequestLogger\<close>), a configuration loader (\<^verbatim>\<open>loadConfig\<close>) and a
  \<^verbatim>\<open>main\<close> that starts the server and shuts it down on a signal.

  A \<^verbatim>\<open>[]byte\<close> is a list of 8-bit words. A \<^verbatim>\<open>time.Duration\<close> is an \<^verbatim>\<open>int64\<close> count
  of nanoseconds; the only durations the program builds itself are the constant
  expressions \<^verbatim>\<open>10 * time.Second\<close> and \<^verbatim>\<open>5 * time.Second\<close>, which Go evaluates exactly
  at compile time, so they are integers here.
\<close>

type_synonym byte = "8 word"

type_synonym Duration = int

definition Second :: Duration where
  "Second = 1000000000"

text \<open>
  The \<^verbatim>\<open>error\<close> values the program tells apart: \<^verbatim>\<open>http.ErrServerClosed\<close> is the one
  \<^verbatim>\<open>main\<close> compares against; every other error is carried with its text.
\<close>

datatype error = ErrServerClosed | OtherError string

definition errors_Is :: "error \<Rightarrow> error \<Rightarrow> bool" where
  "errors_Is err target = (err = target)"

section \<open>Structured log records\<close>

text \<open>
  \<^verbatim>\<open>logger.Info(msg, attrs...)\<close> and \<^verbatim>\<open>logger.Error(msg, attrs...)\<close> write one record
  each to standard output through the JSON handler built at the top of \<^verbatim>\<open>main\<close>
  (level \<^verbatim>\<open>slog.LevelInfo\<close>, so both levels pass). An attribute is built by one of the
  \<^verbatim>\<open>slog\<close> constructors the program calls; the key is its first argument.
\<close>

datatype Level = LevelInfo | LevelError

datatype Attr =
    slog_String string string
  | slog_Int string int
  | slog_Int64 string int
  | slog_Duration string Duration
  | slog_Any string error

record Record =
  level :: Level
  msg :: string
  attrs :: "Attr list"

definition logger_Info :: "string \<Rightarrow> Attr list \<Rightarrow> Record" where
  "logger_Info m as = \<lparr>level = LevelInfo, msg = m, attrs = as\<rparr>"

definition logger_Error :: "string \<Rightarrow> Attr list \<Rightarrow> Record" where
  "logger_Error m as = \<lparr>level = LevelError, msg = m, attrs = as\<rparr>"

fun Attr_key :: "Attr \<Rightarrow> string" where
  "Attr_key (slog_String k v) = k"
| "Attr_key (slog_Int k v) = k"
| "Attr_key (slog_Int64 k v) = k"
| "Attr_key (slog_Duration k v) = k"
| "Attr_key (slog_Any k v) = k"

text \<open>The attributes of a record that carry a given key, in the order they were given.\<close>

definition field :: "Record \<Rightarrow> string \<Rightarrow> Attr list" where
  "field rec k = filter (\<lambda>a. Attr_key a = k) (attrs rec)"

section \<open>Requests, handlers and response writers\<close>

text \<open>
  Of an \<^verbatim>\<open>*http.Request\<close> the middleware reads \<^verbatim>\<open>r.Method\<close>, \<^verbatim>\<open>r.URL.Path\<close>,
  \<^verbatim>\<open>r.RemoteAddr\<close> and, through \<^verbatim>\<open>r.UserAgent()\<close>, the header map. The header is a
  \<^verbatim>\<open>map[string][]string\<close>; \<^verbatim>\<open>Header.Get\<close> gives the first value stored under the key and
  the empty string when there is none.
\<close>

record request =
  Method :: string
  URL_Path :: string
  RemoteAddr :: string
  Header :: "string \<rightharpoonup> string list"

definition Header_Get :: "(string \<rightharpoonup> string list) \<Rightarrow> string \<Rightarrow> string" where
  "Header_Get h k = (case h k of None \<Rightarrow> [] | Some [] \<Rightarrow> [] | Some (v # vs) \<Rightarrow> v)"

definition UserAgent :: "request \<Rightarrow> string" where
  "UserAgent r = Header_Get (Header r) ''User-Agent''"

text \<open>
  An \<^verbatim>\<open>http.ResponseWriter\<close> is an interface of three methods: \<^verbatim>\<open>Header()\<close>,
  \<^verbatim>\<open>Write([]byte) (int, error)\<close> and \<^verbatim>\<open>WriteHeader(int)\<close>. An implementation over a
  state \<open>'s\<close> gives each method as a function on that state; the header map that
  \<^verbatim>\<open>Header()\<close> hands out is written through \<open>impl_Header_Set\<close>.
\<close>

record 's ResponseWriter_impl =
  impl_Header_Set :: "string \<Rightarrow> string list \<Rightarrow> 's \<Rightarrow> 's"
  impl_Write :: "byte list \<Rightarrow> 's \<Rightarrow> (int \<times> error option) \<times> 's"
  impl_WriteHeader :: "int \<Rightarrow> 's \<Rightarrow> 's"

text \<open>
  An \<^verbatim>\<open>http.Handler\<close> sees the writer it is given only through that interface. Its
  run on one request is therefore a tree of interface calls: after each call it goes
  on (for \<^verbatim>\<open>Write\<close>, depending on the result it got back), until it returns or panics.
  \<open>Elapse d\<close> is \<open>d\<close> nanoseconds passing on the monotonic clock while it works.
\<close>

datatype handler =
    Return
  | Panic
  | Elapse nat handler
  | Header_Set string "string list" handler
  | Write "byte list" "int \<times> error option \<Rightarrow> handler"
  | WriteHeader int handler

datatype outcome = Returned | Panicked

text \<open>What a request's run leaves behind, in order: the interface calls and the log records.\<close>

datatype effect =
    Called_Header_Set string "string list"
  | Called_Write "byte list" int "error option"
  | Called_WriteHeader int
  | Logged Record

text \<open>
  \<open>ServeHTTP h impl w t\<close> runs the handler's tree \<open>h\<close> against the writer \<open>w\<close> with the
  clock at \<open>t\<close>: the outcome, the writer and the clock afterwards, and the calls made.
\<close>

primrec ServeHTTP ::
  "handler \<Rightarrow> 's ResponseWriter_impl \<Rightarrow> 's \<Rightarrow> int \<Rightarrow> outcome \<times> 's \<times> int \<times> effect list" where
  "ServeHTTP Return impl w t = (Returned, w, t, [])"
| "ServeHTTP Panic impl w t = (Panicked, w, t, [])"
| "ServeHTTP (Elapse d k) impl w t = ServeHTTP k impl w (t + int d)"
| "ServeHTTP (Header_Set key vs k) impl w t =
     (case ServeHTTP k impl (impl_Header_Set impl key vs w) t of
        (oc, w', t', es) \<Rightarrow> (oc, w', t', Called_Header_Set key vs # es))"
| "ServeHTTP (Write b k) impl w t =
     (case impl_Write impl b w of
        ((n, err), w1) \<Rightarrow>
          (case ServeHTTP (k (n, err)) impl w1 t of
             (oc, w', t', es) \<Rightarrow> (oc, w', t', Called_Write b n err # es)))"
| "ServeHTTP (WriteHeader code k) impl w t =
     (case ServeHTTP k impl (impl_WriteHeader impl code w) t of
        (oc, w', t', es) \<Rightarrow> (oc, w', t', Called_WriteHeader code # es))"

section \<open>The response wrapper\<close>

text \<open>
  \<^verbatim>\<open>type responseWriter struct { http.ResponseWriter; status int; size int64 }\<close>.
  The struct declares no method of its own, so by Go's rule for embedded fields its method
  set is the embedded writer's: each of the three calls goes to the embedded writer, and
  nothing in the file assigns \<^verbatim>\<open>status\<close> or \<^verbatim>\<open>size\<close> after the literal that builds the
  struct. (\<^verbatim>\<open>size\<close> is an \<^verbatim>\<open>int64\<close>; no arithmetic is ever done on it, so its width
  does not show. The field is \<open>size_rw\<close> here, \<open>size\<close> being taken.)
\<close>

record 's responseWriter =
  ResponseWriter :: 's
  status :: int
  size_rw :: int

definition responseWriter_Header_Set ::
  "'s ResponseWriter_impl \<Rightarrow> string \<Rightarrow> string list \<Rightarrow> 's responseWriter \<Rightarrow> 's responseWriter" where
  "responseWriter_Header_Set impl key vs rw =
     rw\<lparr>ResponseWriter := impl_Header_Set impl key vs (ResponseWriter rw)\<rparr>"

definition responseWriter_Write ::
  "'s ResponseWriter_impl \<Rightarrow> byte list \<Rightarrow> 's responseWriter \<Rightarrow> (int \<times> error option) \<times> 's responseWriter" where
  "responseWriter_Write impl b rw =
     (case impl_Write impl b (ResponseWriter rw) of
        (res, w') \<Rightarrow> (res, rw\<lparr>ResponseWriter := w'\<rparr>))"

definition responseWriter_WriteHeader ::
  "'s ResponseWriter_impl \<Rightarrow> int \<Rightarrow> 's responseWriter \<Rightarrow> 's responseWriter" where
  "responseWriter_WriteHeader impl code rw =
     rw\<lparr>ResponseWriter := impl_WriteHeader impl code (ResponseWriter rw)\<rparr>"

definition responseWriter_impl :: "'s ResponseWriter_impl \<Rightarrow> 's responseWriter ResponseWriter_impl" where
  "responseWriter_impl impl =
     \<lparr>impl_Header_Set = responseWriter_Header_Set impl,
      impl_Write = responseWriter_Write impl,
      impl_WriteHeader = responseWriter_WriteHeader impl\<rparr>"

section \<open>The logging middleware\<close>

text \<open>
  \<^verbatim>\<open>RequestLogger(logger, next)\<close>, lines 98 to 121. The handler it returns reads the
  clock, builds the wrapper around the writer \<open>w\<close> it was given (\<^verbatim>\<open>status: 0\<close>, and
  \<^verbatim>\<open>size\<close> at Go's zero value), calls \<^verbatim>\<open>next.ServeHTTP(wrapper, r)\<close>, and after that call
  has returned takes \<^verbatim>\<open>time.Since(start)\<close> and logs one record. The function has no
  \<^verbatim>\<open>defer\<close> and no \<^verbatim>\<open>recover\<close>: a panic in \<^verbatim>\<open>next\<close> leaves through it, and the two
  statements after the call do not run.

  The clock \<open>t\<close> is the monotonic reading that \<^verbatim>\<open>time.Now()\<close> attaches to its result and
  that \<^verbatim>\<open>time.Since\<close> subtracts, in nanoseconds.
\<close>

text \<open>The record of lines 111 to 119, from the request and the three values observed.\<close>

definition request_record :: "request \<Rightarrow> int \<Rightarrow> Duration \<Rightarrow> int \<Rightarrow> Record" where
  "request_record r st duration sz =
     logger_Info ''HTTP Request''
       [slog_String ''method'' (Method r),
        slog_String ''path'' (URL_Path r),
        slog_Int ''status'' st,
        slog_String ''remote_addr'' (RemoteAddr r),
        slog_String ''user_agent'' (UserAgent r),
        slog_Duration ''duration'' duration,
        slog_Int64 ''bytes'' sz]"

definition RequestLogger ::
  "(request \<Rightarrow> handler) \<Rightarrow> 's ResponseWriter_impl \<Rightarrow> request \<Rightarrow> 's \<Rightarrow> int
     \<Rightarrow> outcome \<times> 's \<times> int \<times> effect list" where
  "RequestLogger next impl r w t =
     (let start = t;
          wrapper = \<lparr>ResponseWriter = w, status = 0, size_rw = 0\<rparr>
      in case ServeHTTP (next r) (responseWriter_impl impl) wrapper t of
           (Panicked, wrapper', t', es) \<Rightarrow> (Panicked, ResponseWriter wrapper', t', es)
         | (Returned, wrapper', t', es) \<Rightarrow>
             (let duration = t' - start
              in (Returned, ResponseWriter wrapper', t',
                  es @ [Logged (request_record r (status wrapper') duration
                                  (size_rw wrapper'))])))"

section \<open>What a request's run shows\<close>

text \<open>Parts of a run's result, by name.\<close>

definition writer_of :: "outcome \<times> 's \<times> int \<times> effect list \<Rightarrow> 's" where
  "writer_of x = fst (snd x)"

definition clock_of :: "outcome \<times> 's \<times> int \<times> effect list \<Rightarrow> int" where
  "clock_of x = fst (snd (snd x))"

definition effects_of :: "outcome \<times> 's \<times> int \<times> effect list \<Rightarrow> effect list" where
  "effects_of x = snd (snd (snd x))"

text \<open>
  Read off the effects of a run: the bytes the writer reported written over all \<^verbatim>\<open>Write\<close>
  calls, the code of the first \<^verbatim>\<open>WriteHeader\<close> call (if there was one), and the log
  records.
\<close>

fun bytes_written :: "effect list \<Rightarrow> int" where
  "bytes_written [] = 0"
| "bytes_written (Called_Write b n err # es) = n + bytes_written es"
| "bytes_written (e # es) = bytes_written es"

fun first_status :: "effect list \<Rightarrow> int option" where
  "first_status [] = None"
| "first_status (Called_WriteHeader code # es) = Some code"
| "first_status (e # es) = first_status es"

fun records :: "effect list \<Rightarrow> Record list" where
  "records [] = []"
| "records (Logged rec # es) = rec # records es"
| "records (e # es) = records es"

section \<open>A recording response writer\<close>

text \<open>
  A concrete writer to run the middleware against, with the behaviour the \<^verbatim>\<open>net/http\<close>
  documentation gives every \<^verbatim>\<open>ResponseWriter\<close> and the fields of
  \<^verbatim>\<open>httptest.ResponseRecorder\<close>: the first \<^verbatim>\<open>WriteHeader\<close> fixes the code, a \<^verbatim>\<open>Write\<close>
  before any \<^verbatim>\<open>WriteHeader\<close> implies \<^verbatim>\<open>WriteHeader(200)\<close>, and \<^verbatim>\<open>Write\<close> appends to the
  body and returns \<^verbatim>\<open>len(buf), nil\<close>.
\<close>

record recorder =
  Code :: int
  HeaderMap :: "string \<rightharpoonup> string list"
  Body :: "byte list"
  wroteHeader :: bool

definition recorder_WriteHeader :: "int \<Rightarrow> recorder \<Rightarrow> recorder" where
  "recorder_WriteHeader code rw =
     (if wroteHeader rw then rw else rw\<lparr>Code := code, wroteHeader := True\<rparr>)"

definition recorder_Write :: "byte list \<Rightarrow> recorder \<Rightarrow> (int \<times> error option) \<times> recorder" where
  "recorder_Write buf rw =
     (let rw1 = (if wroteHeader rw then rw else recorder_WriteHeader 200 rw)
      in ((int (length buf), None), rw1\<lparr>Body := Body rw1 @ buf\<rparr>))"

definition recorder_Header_Set :: "string \<Rightarrow> string list \<Rightarrow> recorder \<Rightarrow> recorder" where
  "recorder_Header_Set key vs rw = rw\<lparr>HeaderMap := (HeaderMap rw)(key \<mapsto> vs)\<rparr>"

definition recorder_impl :: "recorder ResponseWriter_impl" where
  "recorder_impl =
     \<lparr>impl_Header_Set = recorder_Header_Set,
      impl_Write = recorder_Write,
      impl_WriteHeader = recorder_WriteHeader\<rparr>"

definition NewRecorder :: recorder where
  "NewRecorder = \<lparr>Code = 200, HeaderMap = Map.empty, Body = [], wroteHeader = False\<rparr>"

text \<open>
  Two runs of a file server to evaluate on: the reply to a missing file (the two header
  lines, \<^verbatim>\<open>WriteHeader(404)\<close>, and the 19 bytes of \<^verbatim>\<open>"404 page not found\n"\<close>), and the
  reply to a file of five bytes (\<^verbatim>\<open>"hello"\<close>) written in two \<^verbatim>\<open>Write\<close> calls.
\<close>

definition not_found_body :: "byte list" where
  "not_found_body =
     [52, 48, 52, 32, 112, 97, 103, 101, 32, 110, 111, 116, 32, 102, 111, 117, 110, 100, 10]"

definition not_found :: handler where
  "not_found =
     Header_Set ''Content-Type'' [''text/plain; charset=utf-8'']
       (Header_Set ''X-Content-Type-Options'' [''nosniff'']
         (WriteHeader 404 (Elapse 1500 (Write not_found_body (\<lambda>res. Return)))))"

definition hello_file :: handler where
  "hello_file =
     Header_Set ''Content-Length'' [''5'']
       (WriteHeader 200
         (Write [104, 101, 108] (\<lambda>res. Elapse 700 (Write [108, 111] (\<lambda>res. Return)))))"

text \<open>A handler that sets code 500 and then panics, whatever the request.\<close>

definition always_panics :: "request \<Rightarrow> handler" where
  "always_panics r = WriteHeader 500 Panic"

definition get_missing :: request where
  "get_missing =
     \<lparr>Method = ''GET'', URL_Path = ''/missing.html'', RemoteAddr = ''127.0.0.1:50000'',
      Header = [''User-Agent'' \<mapsto> [''curl/8.5.0'']]\<rparr>"

definition get_hello :: request where
  "get_hello =
     \<lparr>Method = ''GET'', URL_Path = ''/hello.txt'', RemoteAddr = ''127.0.0.1:50001'',
      Header = Map.empty\<rparr>"

section \<open>Configuration\<close>

text \<open>
  \<^verbatim>\<open>os.Getenv\<close> gives the value of a variable, and the empty string both when the
  variable is unset and when it is set to the empty string.
\<close>

type_synonym environ = "string \<rightharpoonup> string"

definition Getenv :: "environ \<Rightarrow> string \<Rightarrow> string" where
  "Getenv env key = (case env key of None \<Rightarrow> [] | Some v \<Rightarrow> v)"

record Config =
  Port :: string
  StaticDir :: string
  ReadTimeout :: Duration
  WriteTimeout :: Duration
  MaxHeaderBytes :: int

definition loadConfig :: "environ \<Rightarrow> Config" where
  "loadConfig env =
     (let port = Getenv env ''PORT'';
          port = (if port = [] then ''8080'' else port);
          staticDir = Getenv env ''STATIC_DIR'';
          staticDir = (if staticDir = [] then ''./static'' else staticDir)
      in \<lparr>Port = port,
          StaticDir = staticDir,
          ReadTimeout = 10 * Second,
          WriteTimeout = 10 * Second,
          MaxHeaderBytes = push_bit 20 1\<rparr>)"

section \<open>The process: \<^verbatim>\<open>main\<close>\<close>

text \<open>
  \<^verbatim>\<open>main\<close> loads the configuration, builds the file server on \<^verbatim>\<open>http.Dir(cfg.StaticDir)\<close>
  behind the mux and the middleware, builds the \<^verbatim>\<open>http.Server\<close> from the configuration,
  starts a goroutine that logs and calls \<^verbatim>\<open>srv.ListenAndServe()\<close>, and blocks on the
  channel that \<^verbatim>\<open>signal.Notify\<close> feeds with \<^verbatim>\<open>os.Interrupt\<close> and \<^verbatim>\<open>syscall.SIGTERM\<close>.
  What happens next is decided outside the program, so the process is a state and a step
  for each thing that can happen to it.
\<close>

datatype Signal = SIGINT | SIGTERM

fun Signal_String :: "Signal \<Rightarrow> string" where
  "Signal_String SIGINT = ''interrupt''"
| "Signal_String SIGTERM = ''terminated''"

record Server =
  Addr :: string
  ReadTimeout_srv :: Duration
  WriteTimeout_srv :: Duration
  MaxHeaderBytes_srv :: int

text \<open>
  Where the goroutine of lines 45 to 54 stands: not yet scheduled, inside
  \<^verbatim>\<open>ListenAndServe\<close>, or past it. Where \<^verbatim>\<open>main\<close> itself stands: blocked on
  \<^verbatim>\<open>\<open><-quit\<close>\<close> (line 59), inside \<^verbatim>\<open>srv.Shutdown(ctx)\<close> (line 65) with the timeout the
  context was built with, or returned.
\<close>

datatype serve_state = Spawned | In_ListenAndServe | Serve_returned

datatype main_state = Await_signal | In_Shutdown Duration | Main_returned

record 'fs process =
  cfg :: Config
  fileServer :: string
  srv :: Server
  serve_at :: serve_state
  main_at :: main_state
  exit_code :: "int option"
  clock :: int
  files :: 'fs

datatype ('s, 'fs) event =
    Goroutine_runs
  | ListenAndServe_returns "error option"
  | Request request 's
  | Signal_arrives Signal
  | Shutdown_returns "error option"
  | Files_change 'fs
  | Tick nat

text \<open>Lines 23 to 57: the state in which \<^verbatim>\<open>main\<close> reaches \<^verbatim>\<open>\<open>sig := <-quit\<close>\<close>.\<close>

definition main_start :: "environ \<Rightarrow> 'fs \<Rightarrow> int \<Rightarrow> 'fs process" where
  "main_start env fs t0 =
     (let c = loadConfig env
      in \<lparr>cfg = c,
          fileServer = StaticDir c,
          srv = \<lparr>Addr = '':'' @ Port c,
                 ReadTimeout_srv = ReadTimeout c,
                 WriteTimeout_srv = WriteTimeout c,
                 MaxHeaderBytes_srv = MaxHeaderBytes c\<rparr>,
          serve_at = Spawned,
          main_at = Await_signal,
          exit_code = None,
          clock = t0,
          files = fs\<rparr>)"

text \<open>
  One step. \<open>static dir fs\<close> is the handler \<^verbatim>\<open>mux\<close> of line 30 to 33, the standard
  library's file server on directory \<open>dir\<close> over the files \<open>fs\<close>; it is a parameter.
  \<^item> The goroutine runs: it logs \<^verbatim>\<open>"Starting server"\<close> and enters \<^verbatim>\<open>ListenAndServe\<close>.
  \<^item> \<^verbatim>\<open>ListenAndServe\<close> returns \<open>err\<close>: line 50 to 53, an error that is not
    \<^verbatim>\<open>http.ErrServerClosed\<close> is logged and the process exits with code 1.
  \<^item> A request is dispatched to \<^verbatim>\<open>srv.Handler\<close>, the middleware around \<open>static\<close>; a panic
    of the handler ends that request only (the server recovers it per connection).
  \<^item> A signal arrives on \<^verbatim>\<open>quit\<close>: line 60 to 65, it is logged and \<^verbatim>\<open>Shutdown\<close> is called
    with a context of \<^verbatim>\<open>5*time.Second\<close>. The channel is read once, so a later signal
    changes nothing.
  \<^item> \<^verbatim>\<open>Shutdown\<close> returns \<open>err\<close>: line 65 to 70, a non-nil error is logged, then
    \<^verbatim>\<open>"Server exited properly"\<close>, and \<^verbatim>\<open>main\<close> returns: exit code 0.
  \<^item> Once the process has exited nothing happens any more.
\<close>

definition step ::
  "(string \<Rightarrow> 'fs \<Rightarrow> request \<Rightarrow> handler) \<Rightarrow> 's ResponseWriter_impl \<Rightarrow> 'fs process
     \<Rightarrow> ('s, 'fs) event \<Rightarrow> 'fs process \<times> effect list" where
  "step static impl p ev =
     (if exit_code p \<noteq> None then (p, [])
      else case ev of
        Goroutine_runs \<Rightarrow>
          (if serve_at p = Spawned
           then (p\<lparr>serve_at := In_ListenAndServe\<rparr>,
                 [Logged (logger_Info ''Starting server''
                    [slog_String ''port'' (Port (cfg p)),
                     slog_String ''dir'' (StaticDir (cfg p))])])
           else (p, []))
      | ListenAndServe_returns err \<Rightarrow>
          (if serve_at p = In_ListenAndServe
           then (case err of
                   None \<Rightarrow> (p\<lparr>serve_at := Serve_returned\<rparr>, [])
                 | Some e \<Rightarrow>
                     (if \<not> errors_Is e ErrServerClosed
                      then (p\<lparr>serve_at := Serve_returned, exit_code := Some 1\<rparr>,
                            [Logged (logger_Error ''Could not listen on''
                               [slog_String ''addr'' (Port (cfg p)), slog_Any ''error'' e])])
                      else (p\<lparr>serve_at := Serve_returned\<rparr>, [])))
           else (p, []))
      | Request r w \<Rightarrow>
          (if serve_at p = Spawned then (p, [])
           else (case RequestLogger (static (fileServer p) (files p)) impl r w (clock p) of
                   (oc, w', t', es) \<Rightarrow> (p\<lparr>clock := t'\<rparr>, es)))
      | Signal_arrives sig \<Rightarrow>
          (if main_at p = Await_signal
           then (p\<lparr>main_at := In_Shutdown (5 * Second)\<rparr>,
                 [Logged (logger_Info ''Server is shutting down...''
                    [slog_String ''signal'' (Signal_String sig)])])
           else (p, []))
      | Shutdown_returns err \<Rightarrow>
          (case main_at p of
             In_Shutdown d \<Rightarrow>
               (p\<lparr>main_at := Main_returned, exit_code := Some 0\<rparr>,
                (case err of
                   None \<Rightarrow> []
                 | Some e \<Rightarrow> [Logged (logger_Error ''Server forced to shutdown''
                               [slog_Any ''error'' e])])
                @ [Logged (logger_Info ''Server exited properly'' [])])
           | _ \<Rightarrow> (p, []))
      | Files_change fs \<Rightarrow> (p\<lparr>files := fs\<rparr>, [])
      | Tick d \<Rightarrow> (p\<lparr>clock := clock p + int d\<rparr>, []))"

text \<open>A run: the steps of a list of events in order, with everything they put out.\<close>

fun run ::
  "(string \<Rightarrow> 'fs \<Rightarrow> request \<Rightarrow> handler) \<Rightarrow> 's ResponseWriter_impl \<Rightarrow> 'fs process
     \<Rightarrow> ('s, 'fs) event list \<Rightarrow> 'fs process \<times> effect list" where
  "run static impl p [] = (p, [])"
| "run static impl p (ev # evs) =
     (case step static impl p ev of
        (p1, out1) \<Rightarrow>
          (case run static impl p1 evs of
             (p2, out2) \<Rightarrow> (p2, out1 @ out2)))"

text \<open>
  To evaluate the process on: a small stand-in for the file server (the file stored under
  the directory and the request's path is sent with code 200, and a path with no file gets
  the not-found reply), one file, and the process once the goroutine is serving.
\<close>

definition serve_files :: "string \<Rightarrow> (string \<rightharpoonup> byte list) \<Rightarrow> request \<Rightarrow> handler" where
  "serve_files dir fs r =
     (case fs (dir @ URL_Path r) of
        None \<Rightarrow> not_found
      | Some content \<Rightarrow> WriteHeader 200 (Write content (\<lambda>res. Return)))"

definition sample_files :: "string \<rightharpoonup> byte list" where
  "sample_files = [''./static/hello.txt'' \<mapsto> [104, 101, 108, 108, 111]]"

definition sample_serving :: "(string \<rightharpoonup> byte list) process" where
  "sample_serving =
     fst (step serve_files recorder_impl (main_start Map.empty sample_files 0) Goroutine_runs)"

text \<open>The events that change the files under the server.\<close>

fun is_Files_change :: "('s, 'fs) event \<Rightarrow> bool" where
  "is_Files_change (Files_change fs) = True"
| "is_Files_change ev = False"

section \<open>Properties of a handler's run\<close>

text \<open>
  The wrapper is transparent: a handler run against the wrapper makes the run it would
  make against the embedded writer, and the wrapper's other two fields stay as they were.
\<close>

lemma ServeHTTP_responseWriter:
  "ServeHTTP h (responseWriter_impl impl) rw t =
     (case ServeHTTP h impl (ResponseWriter rw) t of
        (oc, w', t', es) \<Rightarrow> (oc, rw\<lparr>ResponseWriter := w'\<rparr>, t', es))"
proof (induction h arbitrary: rw t)
  case (Write b k)
  then show ?case
    by (simp add: responseWriter_impl_def responseWriter_Write_def split: prod.splits)
qed (simp_all add: responseWriter_impl_def responseWriter_Header_Set_def
       responseWriter_WriteHeader_def split: prod.splits)

text \<open>The clock does not go back during a run, and a run by itself logs nothing.\<close>

lemma ServeHTTP_clock: "ServeHTTP h impl w t = (oc, w', t', es) \<Longrightarrow> t \<le> t'"
proof (induction h arbitrary: w t oc w' t' es)
  case (Elapse d k)
  from Elapse.prems have "ServeHTTP k impl w (t + int d) = (oc, w', t', es)" by simp
  from Elapse.IH [OF this] show ?case by simp
next
  case (Write b k)
  obtain n err w1 where a: "impl_Write impl b w = ((n, err), w1)"
    by (metis surj_pair)
  obtain es1 where b: "ServeHTTP (k (n, err)) impl w1 t = (oc, w', t', es1)"
    using Write.prems a by (auto split: prod.splits)
  show ?case using Write.IH [OF rangeI b] .
qed (auto split: prod.splits)

lemma ServeHTTP_records: "ServeHTTP h impl w t = (oc, w', t', es) \<Longrightarrow> records es = []"
proof (induction h arbitrary: w t oc w' t' es)
  case (Write b k)
  obtain n err w1 where a: "impl_Write impl b w = ((n, err), w1)"
    by (metis surj_pair)
  obtain es1 where b: "ServeHTTP (k (n, err)) impl w1 t = (oc, w', t', es1)"
    using Write.prems a by (auto split: prod.splits)
  have c: "es = Called_Write b n err # es1"
    using Write.prems a b by simp
  show ?case using Write.IH [OF rangeI b] c by simp
qed (auto split: prod.splits)

text \<open>A run does not depend on the clock reading it starts at: only the readings shift.\<close>

lemma ServeHTTP_shift:
  "ServeHTTP h impl w t = (oc, w', t', es) \<Longrightarrow> ServeHTTP h impl w u = (oc, w', u + (t' - t), es)"
proof (induction h arbitrary: w t u oc w' t' es)
  case (Elapse d k)
  from Elapse.prems have "ServeHTTP k impl w (t + int d) = (oc, w', t', es)" by simp
  from Elapse.IH [OF this, of "u + int d"] show ?case by (simp add: algebra_simps)
next
  case (Write b k)
  obtain n err w1 where a: "impl_Write impl b w = ((n, err), w1)"
    by (metis surj_pair)
  obtain es1 where b: "ServeHTTP (k (n, err)) impl w1 t = (oc, w', t', es1)"
    using Write.prems a by (auto split: prod.splits)
  have c: "es = Called_Write b n err # es1"
    using Write.prems a b by simp
  show ?case using Write.IH [OF rangeI b, of u] a c by simp
next
  case (Header_Set key vs k)
  obtain es1 where b: "ServeHTTP k impl (impl_Header_Set impl key vs w) t = (oc, w', t', es1)"
    and c: "es = Called_Header_Set key vs # es1"
    using Header_Set.prems by (auto split: prod.splits)
  show ?case using Header_Set.IH [OF b, of u] c by simp
next
  case (WriteHeader code k)
  obtain es1 where b: "ServeHTTP k impl (impl_WriteHeader impl code w) t = (oc, w', t', es1)"
    and c: "es = Called_WriteHeader code # es1"
    using WriteHeader.prems by (auto split: prod.splits)
  show ?case using WriteHeader.IH [OF b, of u] c by simp
qed auto

text \<open>Log records among effects.\<close>

lemma records_append: "records (xs @ ys) = records xs @ records ys"
  by (induction xs rule: records.induct) simp_all

lemma Logged_in_records: "Logged rec \<in> set es \<longleftrightarrow> rec \<in> set (records es)"
  by (induction es rule: records.induct) auto

text \<open>The middleware in terms of the inner handler's run on the real writer.\<close>

lemma RequestLogger_Returned:
  assumes "ServeHTTP (next r) impl w t = (Returned, w', t', es)"
  shows "RequestLogger next impl r w t =
     (Returned, w', t',
      es @ [Logged (request_record r 0 (t' - t) 0)])"
  using assms by (simp add: RequestLogger_def ServeHTTP_responseWriter)

lemma RequestLogger_Panicked:
  assumes "ServeHTTP (next r) impl w t = (Panicked, w', t', es)"
  shows "RequestLogger next impl r w t = (Panicked, w', t', es)"
  using assms by (simp add: RequestLogger_def ServeHTTP_responseWriter)

lemma RequestLogger_cases:
  assumes "RequestLogger next impl r w t = (oc, w', t', es)"
  obtains (returned) calls where "oc = Returned"
      "ServeHTTP (next r) impl w t = (Returned, w', t', calls)"
      "es = calls @ [Logged (request_record r 0 (t' - t) 0)]"
  | (panicked) "oc = Panicked" "ServeHTTP (next r) impl w t = (Panicked, w', t', es)"
proof -
  obtain oc1 w1 t1 es1 where s: "ServeHTTP (next r) impl w t = (oc1, w1, t1, es1)"
    by (metis prod_cases4)
  show thesis
  proof (cases oc1)
    case Returned
    have "RequestLogger next impl r w t = (Returned, w1, t1,
      es1 @ [Logged (request_record r 0 (t1 - t) 0)])"
      using s Returned by (intro RequestLogger_Returned) simp
    with assms have "oc = Returned" "w1 = w'" "t1 = t'"
      "es = es1 @ [Logged (request_record r 0 (t' - t) 0)]"
      by auto
    with s Returned show thesis by (intro returned [of es1]) simp_all
  next
    case Panicked
    have "RequestLogger next impl r w t = (Panicked, w1, t1, es1)"
      using s Panicked by (intro RequestLogger_Panicked) simp
    with assms have "oc = Panicked" "w1 = w'" "t1 = t'" "es = es1"
      by simp_all
    with s Panicked show thesis by (intro panicked) simp_all
  qed
qed

text \<open>When the inner handler panics, the middleware logs nothing.\<close>

lemma RequestLogger_panic_logs_nothing:
  assumes "RequestLogger next impl r w t = (Panicked, w', t', es)"
  shows "records es = []"
  using assms
proof (cases rule: RequestLogger_cases)
  case (returned calls)
  then show ?thesis by simp
next
  case panicked
  then show ?thesis by (simp add: ServeHTTP_records)
qed

section \<open>The two sample requests, evaluated\<close>

lemma field_request_record:
  "field (request_record r st d sz) ''method'' = [slog_String ''method'' (Method r)]"
  "field (request_record r st d sz) ''path'' = [slog_String ''path'' (URL_Path r)]"
  "field (request_record r st d sz) ''status'' = [slog_Int ''status'' st]"
  "field (request_record r st d sz) ''duration'' = [slog_Duration ''duration'' d]"
  "field (request_record r st d sz) ''bytes'' = [slog_Int64 ''bytes'' sz]"
  "msg (request_record r st d sz) = ''HTTP Request''"
  by (simp_all add: field_def request_record_def logger_Info_def)

lemma ServeHTTP_not_found:
  "ServeHTTP not_found recorder_impl NewRecorder 1000 =
     (Returned,
      \<lparr>Code = 404,
       HeaderMap = [''Content-Type'' \<mapsto> [''text/plain; charset=utf-8''],
                    ''X-Content-Type-Options'' \<mapsto> [''nosniff'']],
       Body = not_found_body, wroteHeader = True\<rparr>,
      2500,
      [Called_Header_Set ''Content-Type'' [''text/plain; charset=utf-8''],
       Called_Header_Set ''X-Content-Type-Options'' [''nosniff''],
       Called_WriteHeader 404,
       Called_Write not_found_body 19 None])"
  by (simp add: not_found_def NewRecorder_def recorder_impl_def recorder_Write_def
      recorder_WriteHeader_def recorder_Header_Set_def not_found_body_def)

lemma eval_not_found:
  "RequestLogger (\<lambda>r. not_found) recorder_impl get_missing NewRecorder 1000 =
     (Returned,
      \<lparr>Code = 404,
       HeaderMap = [''Content-Type'' \<mapsto> [''text/plain; charset=utf-8''],
                    ''X-Content-Type-Options'' \<mapsto> [''nosniff'']],
       Body = not_found_body, wroteHeader = True\<rparr>,
      2500,
      [Called_Header_Set ''Content-Type'' [''text/plain; charset=utf-8''],
       Called_Header_Set ''X-Content-Type-Options'' [''nosniff''],
       Called_WriteHeader 404,
       Called_Write not_found_body 19 None,
       Logged (request_record get_missing 0 1500 0)])"
  using RequestLogger_Returned [of "\<lambda>r. not_found" get_missing, OF ServeHTTP_not_found]
  by simp

lemma ServeHTTP_hello_file:
  "ServeHTTP hello_file recorder_impl NewRecorder 0 =
     (Returned,
      \<lparr>Code = 200, HeaderMap = [''Content-Length'' \<mapsto> [''5'']],
       Body = [104, 101, 108, 108, 111], wroteHeader = True\<rparr>,
      700,
      [Called_Header_Set ''Content-Length'' [''5''],
       Called_WriteHeader 200,
       Called_Write [104, 101, 108] 3 None,
       Called_Write [108, 111] 2 None])"
  by (simp add: hello_file_def NewRecorder_def recorder_impl_def recorder_Write_def
      recorder_WriteHeader_def recorder_Header_Set_def)

lemma eval_hello_file:
  "RequestLogger (\<lambda>r. hello_file) recorder_impl get_hello NewRecorder 0 =
     (Returned,
      \<lparr>Code = 200, HeaderMap = [''Content-Length'' \<mapsto> [''5'']],
       Body = [104, 101, 108, 108, 111], wroteHeader = True\<rparr>,
      700,
      [Called_Header_Set ''Content-Length'' [''5''],
       Called_WriteHeader 200,
       Called_Write [104, 101, 108] 3 None,
       Called_Write [108, 111] 2 None,
       Logged (request_record get_hello 0 700 0)])"
  using RequestLogger_Returned [of "\<lambda>r. hello_file" get_hello, OF ServeHTTP_hello_file]
  by simp

section \<open>The logging middleware: what the record holds\<close>

text \<open>
  C10. For every request, whatever status code and body the inner handler writes, a log
  record that the middleware emits has \<open>status\<close> 0 and \<open>bytes\<close> 0: the wrapper passes
  \<^verbatim>\<open>WriteHeader\<close> and \<^verbatim>\<open>Write\<close> on to the embedded writer (same call, same result) and
  leaves its own \<^verbatim>\<open>status\<close> and \<^verbatim>\<open>size\<close> fields as they were.
\<close>

theorem RequestLogger_logs_zero_status_and_bytes:
  assumes "RequestLogger next impl r w t = (oc, w', t', es)"
    and "Logged rec \<in> set es"
  shows "field rec ''status'' = [slog_Int ''status'' 0]
       \<and> field rec ''bytes'' = [slog_Int64 ''bytes'' 0]
       \<and> ResponseWriter (responseWriter_WriteHeader impl code rw) =
           impl_WriteHeader impl code (ResponseWriter rw)
       \<and> status (responseWriter_WriteHeader impl code rw) = status rw
       \<and> size_rw (responseWriter_WriteHeader impl code rw) = size_rw rw
       \<and> fst (responseWriter_Write impl b rw) = fst (impl_Write impl b (ResponseWriter rw))
       \<and> ResponseWriter (snd (responseWriter_Write impl b rw)) =
           snd (impl_Write impl b (ResponseWriter rw))
       \<and> status (snd (responseWriter_Write impl b rw)) = status rw
       \<and> size_rw (snd (responseWriter_Write impl b rw)) = size_rw rw"
proof -
  have rec: "rec = request_record r 0 (t' - t) 0"
    using assms(1)
  proof (cases rule: RequestLogger_cases)
    case (returned calls)
    from ServeHTTP_records [OF returned(2)] have "Logged rec \<notin> set calls"
      by (simp add: Logged_in_records)
    with assms(2) returned(3) show ?thesis by simp
  next
    case panicked
    from ServeHTTP_records [OF panicked(2)] assms(2) show ?thesis
      by (simp add: Logged_in_records)
  qed
  have fields: "field rec ''status'' = [slog_Int ''status'' 0]"
      "field rec ''bytes'' = [slog_Int64 ''bytes'' 0]"
    by (simp_all add: rec field_request_record)
  have fwd: "ResponseWriter (responseWriter_WriteHeader impl code rw) =
        impl_WriteHeader impl code (ResponseWriter rw)"
      "status (responseWriter_WriteHeader impl code rw) = status rw"
      "size_rw (responseWriter_WriteHeader impl code rw) = size_rw rw"
    by (simp_all add: responseWriter_WriteHeader_def)
  have wr: "fst (responseWriter_Write impl b rw) = fst (impl_Write impl b (ResponseWriter rw))"
      "ResponseWriter (snd (responseWriter_Write impl b rw)) =
        snd (impl_Write impl b (ResponseWriter rw))"
      "status (snd (responseWriter_Write impl b rw)) = status rw"
      "size_rw (snd (responseWriter_Write impl b rw)) = size_rw rw"
    by (simp_all add: responseWriter_Write_def split: prod.splits)
  from fields fwd wr show ?thesis by simp
qed

text \<open>
  At the reply to a missing file: the handler sets 404 and writes 19 bytes, and the record
  is there with \<open>status\<close> 0 and \<open>bytes\<close> 0.
\<close>

theorem RequestLogger_logs_zero_status_and_bytes_witness:
  "Logged (request_record get_missing 0 1500 0)
     \<in> set (effects_of (RequestLogger (\<lambda>r. not_found) recorder_impl get_missing NewRecorder 1000))
   \<and> first_status
       (effects_of (RequestLogger (\<lambda>r. not_found) recorder_impl get_missing NewRecorder 1000))
      = Some 404
   \<and> bytes_written
       (effects_of (RequestLogger (\<lambda>r. not_found) recorder_impl get_missing NewRecorder 1000))
      = 19
   \<and> field (request_record get_missing 0 1500 0) ''status'' = [slog_Int ''status'' 0]
   \<and> field (request_record get_missing 0 1500 0) ''bytes'' = [slog_Int64 ''bytes'' 0]"
proof -
  note e = eval_not_found
  have m: "Logged (request_record get_missing 0 1500 0) \<in> set
     [Called_Header_Set ''Content-Type'' [''text/plain; charset=utf-8''],
       Called_Header_Set ''X-Content-Type-Options'' [''nosniff''],
       Called_WriteHeader 404,
       Called_Write not_found_body 19 None,
       Logged (request_record get_missing 0 1500 0)]"
    by simp
  from RequestLogger_logs_zero_status_and_bytes [OF e m] m
  show ?thesis by (simp add: e effects_of_def)
qed

text \<open>
  C1 says that \<open>bytes\<close> in the record is the total number of bytes written to the
  response body. The code at the request for the five-byte file: two \<^verbatim>\<open>Write\<close> calls of
  3 and 2 bytes go through the wrapper, 5 bytes in all, and the one record has \<open>bytes\<close> 0.
\<close>

theorem RequestLogger_bytes_of_hello_file:
  "bytes_written
     (effects_of (RequestLogger (\<lambda>r. hello_file) recorder_impl get_hello NewRecorder 0)) = 5
   \<and> map (\<lambda>rec. field rec ''bytes'')
       (records (effects_of (RequestLogger (\<lambda>r. hello_file) recorder_impl get_hello NewRecorder 0)))
      = [[slog_Int64 ''bytes'' 0]]"
  by (simp add: eval_hello_file effects_of_def field_request_record)

text \<open>
  C2 says that the wrapper records the first status code the inner handler sets and that
  \<open>status\<close> in the record is that code. The code at the request for a missing file: the
  handler calls \<^verbatim>\<open>WriteHeader(404)\<close> through the wrapper, the real writer ends with code
  404, and the one record has \<open>status\<close> 0.
\<close>

theorem RequestLogger_status_of_not_found:
  "first_status
     (effects_of (RequestLogger (\<lambda>r. not_found) recorder_impl get_missing NewRecorder 1000))
     = Some 404
   \<and> Code (writer_of (RequestLogger (\<lambda>r. not_found) recorder_impl get_missing NewRecorder 1000))
     = 404
   \<and> map (\<lambda>rec. field rec ''status'')
       (records (effects_of (RequestLogger (\<lambda>r. not_found) recorder_impl get_missing NewRecorder 1000)))
      = [[slog_Int ''status'' 0]]"
  by (simp add: eval_not_found effects_of_def writer_of_def field_request_record)

text \<open>
  C3 says that every inbound request gets exactly one log record. That fails when the
  handler invocation does not return: the middleware has no \<^verbatim>\<open>defer\<close> and no
  \<^verbatim>\<open>recover\<close>, so a panic in \<^verbatim>\<open>next.ServeHTTP\<close> skips the log call. Here the handler
  sets code 500 and panics; the call reaches the writer and no record is emitted.
\<close>

theorem RequestLogger_one_record_counterexample:
  "effects_of (RequestLogger always_panics recorder_impl get_missing NewRecorder 0) =
     [Called_WriteHeader 500]
   \<and> records (effects_of (RequestLogger always_panics recorder_impl get_missing NewRecorder 0))
       = []"
proof -
  have "ServeHTTP (always_panics get_missing) recorder_impl NewRecorder 0 =
      (Panicked, \<lparr>Code = 500, HeaderMap = Map.empty, Body = [], wroteHeader = True\<rparr>, 0,
       [Called_WriteHeader 500])"
    by (simp add: always_panics_def recorder_impl_def recorder_WriteHeader_def NewRecorder_def)
  from RequestLogger_Panicked [of always_panics get_missing, OF this]
  show ?thesis by (simp add: effects_of_def)
qed

text \<open>
  C3, amended. For every request whose inner handler invocation returns, whatever calls
  the handler made on the way (any status, any body, none at all), the middleware
  returns too and emits exactly one log record, after the handler's calls, and the
  record's \<open>method\<close> and \<open>path\<close> are the request's method and URL path.
\<close>

theorem RequestLogger_one_record:
  assumes "ServeHTTP (next r) impl w t = (Returned, w', t', calls)"
  shows "\<exists>rec. RequestLogger next impl r w t = (Returned, w', t', calls @ [Logged rec])
           \<and> records (effects_of (RequestLogger next impl r w t)) = [rec]
           \<and> msg rec = ''HTTP Request''
           \<and> field rec ''method'' = [slog_String ''method'' (Method r)]
           \<and> field rec ''path'' = [slog_String ''path'' (URL_Path r)]"
proof -
  have run: "RequestLogger next impl r w t =
      (Returned, w', t', calls @ [Logged (request_record r 0 (t' - t) 0)])"
    by (rule RequestLogger_Returned [of "next" r, OF assms])
  have "records calls = []"
    by (rule ServeHTTP_records [OF assms])
  then have one: "records (effects_of (RequestLogger next impl r w t)) =
      [request_record r 0 (t' - t) 0]"
    by (simp add: run effects_of_def records_append)
  from run one show ?thesis
    by (simp add: field_request_record)
qed

text \<open>At the request for the five-byte file and at the request for a missing file.\<close>

theorem RequestLogger_one_record_witness:
  "ServeHTTP hello_file recorder_impl NewRecorder 0 =
     (Returned,
      \<lparr>Code = 200, HeaderMap = [''Content-Length'' \<mapsto> [''5'']],
       Body = [104, 101, 108, 108, 111], wroteHeader = True\<rparr>,
      700,
      [Called_Header_Set ''Content-Length'' [''5''],
       Called_WriteHeader 200,
       Called_Write [104, 101, 108] 3 None,
       Called_Write [108, 111] 2 None])
   \<and> records (effects_of (RequestLogger (\<lambda>r. hello_file) recorder_impl get_hello NewRecorder 0))
       = [request_record get_hello 0 700 0]
   \<and> msg (request_record get_hello 0 700 0) = ''HTTP Request''
   \<and> field (request_record get_hello 0 700 0) ''method'' = [slog_String ''method'' ''GET'']
   \<and> field (request_record get_hello 0 700 0) ''path'' = [slog_String ''path'' ''/hello.txt'']
   \<and> ServeHTTP not_found recorder_impl NewRecorder 1000 =
     (Returned,
      \<lparr>Code = 404,
       HeaderMap = [''Content-Type'' \<mapsto> [''text/plain; charset=utf-8''],
                    ''X-Content-Type-Options'' \<mapsto> [''nosniff'']],
       Body = not_found_body, wroteHeader = True\<rparr>,
      2500,
      [Called_Header_Set ''Content-Type'' [''text/plain; charset=utf-8''],
       Called_Header_Set ''X-Content-Type-Options'' [''nosniff''],
       Called_WriteHeader 404,
       Called_Write not_found_body 19 None])
   \<and> records
        (effects_of (RequestLogger (\<lambda>r. not_found) recorder_impl get_missing NewRecorder 1000))
       = [request_record get_missing 0 1500 0]
   \<and> field (request_record get_missing 0 1500 0) ''method'' = [slog_String ''method'' ''GET'']
   \<and> field (request_record get_missing 0 1500 0) ''path'' =
       [slog_String ''path'' ''/missing.html'']"
proof -
  from RequestLogger_one_record [of "\<lambda>r. hello_file" get_hello, OF ServeHTTP_hello_file]
  obtain rec1 where
    a: "RequestLogger (\<lambda>r. hello_file) recorder_impl get_hello NewRecorder 0 =
          (Returned,
           \<lparr>Code = 200, HeaderMap = [''Content-Length'' \<mapsto> [''5'']],
            Body = [104, 101, 108, 108, 111], wroteHeader = True\<rparr>,
           700,
           [Called_Header_Set ''Content-Length'' [''5''],
            Called_WriteHeader 200,
            Called_Write [104, 101, 108] 3 None,
            Called_Write [108, 111] 2 None] @ [Logged rec1])"
    and b: "records (effects_of (RequestLogger (\<lambda>r. hello_file) recorder_impl get_hello NewRecorder 0))
          = [rec1]"
    by blast
  from a have rec1: "rec1 = request_record get_hello 0 700 0"
    by (simp add: eval_hello_file)
  from RequestLogger_one_record [of "\<lambda>r. not_found" get_missing, OF ServeHTTP_not_found]
  obtain rec2 where
    c: "RequestLogger (\<lambda>r. not_found) recorder_impl get_missing NewRecorder 1000 =
          (Returned,
           \<lparr>Code = 404,
            HeaderMap = [''Content-Type'' \<mapsto> [''text/plain; charset=utf-8''],
                         ''X-Content-Type-Options'' \<mapsto> [''nosniff'']],
            Body = not_found_body, wroteHeader = True\<rparr>,
           2500,
           [Called_Header_Set ''Content-Type'' [''text/plain; charset=utf-8''],
            Called_Header_Set ''X-Content-Type-Options'' [''nosniff''],
            Called_WriteHeader 404,
            Called_Write not_found_body 19 None] @ [Logged rec2])"
    and d: "records
          (effects_of (RequestLogger (\<lambda>r. not_found) recorder_impl get_missing NewRecorder 1000))
          = [rec2]"
    by blast
  from c have rec2: "rec2 = request_record get_missing 0 1500 0"
    by (simp add: eval_not_found)
  from b d rec1 rec2 show ?thesis
    by (simp add: ServeHTTP_hello_file ServeHTTP_not_found field_request_record
        get_hello_def get_missing_def)
qed

text \<open>
  C6. A log record of a request comes after everything its handler invocation did: the
  effects are the handler's complete, returned run followed by the record, and the run
  itself holds no record. The record is built from this request and this invocation only,
  and its \<open>duration\<close> is the clock reading after the handler returned minus the reading
  taken before it was called, which is not negative.
\<close>

theorem RequestLogger_record_after_handler:
  assumes "RequestLogger next impl r w t = (oc, w', t', es)"
    and "Logged rec \<in> set es"
  shows "\<exists>calls. ServeHTTP (next r) impl w t = (Returned, w', t', calls)
           \<and> records calls = []
           \<and> es = calls @ [Logged rec]
           \<and> rec = request_record r 0 (t' - t) 0
           \<and> field rec ''duration'' = [slog_Duration ''duration'' (t' - t)]
           \<and> 0 \<le> t' - t"
  using assms(1)
proof (cases rule: RequestLogger_cases)
  case (returned calls)
  have none: "records calls = []" by (rule ServeHTTP_records [OF returned(2)])
  then have "Logged rec \<notin> set calls" by (simp add: Logged_in_records)
  with assms(2) returned(3) have rec: "rec = request_record r 0 (t' - t) 0" by simp
  have "t \<le> t'" by (rule ServeHTTP_clock [OF returned(2)])
  with returned none rec show ?thesis
    by (simp add: field_request_record)
next
  case panicked
  from ServeHTTP_records [OF panicked(2)] assms(2) show ?thesis
    by (simp add: Logged_in_records)
qed

text \<open>At the request for a missing file, started with the clock at 1000.\<close>

theorem RequestLogger_record_after_handler_witness:
  "Logged (request_record get_missing 0 1500 0)
     \<in> set (effects_of (RequestLogger (\<lambda>r. not_found) recorder_impl get_missing NewRecorder 1000))
   \<and> ServeHTTP not_found recorder_impl NewRecorder 1000 =
       (Returned,
        writer_of (RequestLogger (\<lambda>r. not_found) recorder_impl get_missing NewRecorder 1000),
        2500,
        [Called_Header_Set ''Content-Type'' [''text/plain; charset=utf-8''],
         Called_Header_Set ''X-Content-Type-Options'' [''nosniff''],
         Called_WriteHeader 404,
         Called_Write not_found_body 19 None])
   \<and> effects_of (RequestLogger (\<lambda>r. not_found) recorder_impl get_missing NewRecorder 1000) =
       [Called_Header_Set ''Content-Type'' [''text/plain; charset=utf-8''],
        Called_Header_Set ''X-Content-Type-Options'' [''nosniff''],
        Called_WriteHeader 404,
        Called_Write not_found_body 19 None]
       @ [Logged (request_record get_missing 0 1500 0)]
   \<and> field (request_record get_missing 0 1500 0) ''duration'' = [slog_Duration ''duration'' (2500 - 1000)]
   \<and> (0::int) \<le> 2500 - 1000"
proof -
  note e = eval_not_found
  have m: "Logged (request_record get_missing 0 1500 0) \<in> set
     [Called_Header_Set ''Content-Type'' [''text/plain; charset=utf-8''],
       Called_Header_Set ''X-Content-Type-Options'' [''nosniff''],
       Called_WriteHeader 404,
       Called_Write not_found_body 19 None,
       Logged (request_record get_missing 0 1500 0)]"
    by simp
  from RequestLogger_record_after_handler [OF e m] m
  show ?thesis
    by (simp add: e effects_of_def writer_of_def ServeHTTP_not_found field_request_record)
qed

section \<open>Configuration loading\<close>

lemma loadConfig_fields:
  "Port (loadConfig env) = (if Getenv env ''PORT'' = [] then ''8080'' else Getenv env ''PORT'')"
  "StaticDir (loadConfig env) =
     (if Getenv env ''STATIC_DIR'' = [] then ''./static'' else Getenv env ''STATIC_DIR'')"
  "ReadTimeout (loadConfig env) = 10 * Second"
  "WriteTimeout (loadConfig env) = 10 * Second"
  "MaxHeaderBytes (loadConfig env) = 1048576"
  by (simp_all add: loadConfig_def Let_def)

text \<open>
  C5. \<^verbatim>\<open>loadConfig\<close> gives port \<^verbatim>\<open>"8080"\<close> when \<^verbatim>\<open>PORT\<close> is unset or empty and static
  root \<^verbatim>\<open>"./static"\<close> when \<^verbatim>\<open>STATIC_DIR\<close> is unset or empty; a non-empty value of either
  variable is used as it is; and the read timeout is 10 s, the write timeout 10 s
  (10000000000 ns each) and the header limit \<^verbatim>\<open>1<<20\<close> = 1048576 bytes whatever the
  environment holds.
\<close>

theorem loadConfig_values:
  "(env ''PORT'' = None \<or> env ''PORT'' = Some [] \<longrightarrow> Port (loadConfig env) = ''8080'')
   \<and> (\<forall>v. env ''PORT'' = Some v \<and> v \<noteq> [] \<longrightarrow> Port (loadConfig env) = v)
   \<and> (env ''STATIC_DIR'' = None \<or> env ''STATIC_DIR'' = Some []
        \<longrightarrow> StaticDir (loadConfig env) = ''./static'')
   \<and> (\<forall>v. env ''STATIC_DIR'' = Some v \<and> v \<noteq> [] \<longrightarrow> StaticDir (loadConfig env) = v)
   \<and> ReadTimeout (loadConfig env) = 10 * Second
   \<and> WriteTimeout (loadConfig env) = 10 * Second
   \<and> 10 * Second = 10000000000
   \<and> MaxHeaderBytes (loadConfig env) = 1048576"
proof -
  have port1: "env ''PORT'' = None \<or> env ''PORT'' = Some [] \<longrightarrow> Port (loadConfig env) = ''8080''"
    by (auto simp add: loadConfig_fields Getenv_def)
  have port2: "\<forall>v. env ''PORT'' = Some v \<and> v \<noteq> [] \<longrightarrow> Port (loadConfig env) = v"
    by (simp add: loadConfig_fields Getenv_def)
  have dir1: "env ''STATIC_DIR'' = None \<or> env ''STATIC_DIR'' = Some []
        \<longrightarrow> StaticDir (loadConfig env) = ''./static''"
    by (auto simp add: loadConfig_fields Getenv_def)
  have dir2: "\<forall>v. env ''STATIC_DIR'' = Some v \<and> v \<noteq> [] \<longrightarrow> StaticDir (loadConfig env) = v"
    by (simp add: loadConfig_fields Getenv_def)
  have fixed: "ReadTimeout (loadConfig env) = 10 * Second"
      "WriteTimeout (loadConfig env) = 10 * Second"
      "10 * Second = 10000000000"
      "MaxHeaderBytes (loadConfig env) = 1048576"
    by (simp_all add: loadConfig_fields Second_def)
  from port1 port2 dir1 dir2 fixed show ?thesis by blast
qed

text \<open>With nothing set, with both variables set, and with \<^verbatim>\<open>PORT\<close> set to the empty string.\<close>

theorem loadConfig_values_witness:
  "Port (loadConfig Map.empty) = ''8080''
   \<and> StaticDir (loadConfig Map.empty) = ''./static''
   \<and> Port (loadConfig [''PORT'' \<mapsto> ''9090'', ''STATIC_DIR'' \<mapsto> ''/srv/www'']) = ''9090''
   \<and> StaticDir (loadConfig [''PORT'' \<mapsto> ''9090'', ''STATIC_DIR'' \<mapsto> ''/srv/www'']) = ''/srv/www''
   \<and> Port (loadConfig [''PORT'' \<mapsto> []]) = ''8080''
   \<and> ReadTimeout (loadConfig Map.empty) = 10000000000
   \<and> WriteTimeout (loadConfig Map.empty) = 10000000000
   \<and> MaxHeaderBytes (loadConfig Map.empty) = 1048576"
  using loadConfig_values [of Map.empty]
    loadConfig_values [of "[''PORT'' \<mapsto> ''9090'', ''STATIC_DIR'' \<mapsto> ''/srv/www'']"]
    loadConfig_values [of "[''PORT'' \<mapsto> []]"]
  by simp


section \<open>The process, step by step\<close>

text \<open>
  What no step touches; what only a change of the files touches; and that a goroutine
  that has started never counts as not started again.
\<close>

lemma step_frame:
  "cfg (fst (step static impl p ev)) = cfg p"
  "fileServer (fst (step static impl p ev)) = fileServer p"
  "srv (fst (step static impl p ev)) = srv p"
  by (cases ev; simp add: step_def split: option.splits prod.splits main_state.splits)+

lemma step_files:
  "\<not> is_Files_change ev \<Longrightarrow> files (fst (step static impl p ev)) = files p"
  by (cases ev; simp add: step_def split: option.splits prod.splits main_state.splits)

lemma step_serving:
  "serve_at p \<noteq> Spawned \<Longrightarrow> serve_at (fst (step static impl p ev)) \<noteq> Spawned"
  by (cases ev; simp add: step_def split: option.splits prod.splits main_state.splits)

lemma fst_run_Cons:
  "fst (run static impl p (ev # evs)) = fst (run static impl (fst (step static impl p ev)) evs)"
  by (simp split: prod.splits)

lemma run_frame:
  "cfg (fst (run static impl p evs)) = cfg p
   \<and> fileServer (fst (run static impl p evs)) = fileServer p
   \<and> srv (fst (run static impl p evs)) = srv p"
proof (induction evs arbitrary: p)
  case Nil
  show ?case by simp
next
  case (Cons ev evs)
  from Cons.IH [of "fst (step static impl p ev)"] show ?case
    by (simp only: fst_run_Cons step_frame)
qed

lemma run_files:
  "\<forall>ev \<in> set evs. \<not> is_Files_change ev \<Longrightarrow> files (fst (run static impl p evs)) = files p"
proof (induction evs arbitrary: p)
  case Nil
  show ?case by simp
next
  case (Cons ev evs)
  from Cons.prems have here: "\<not> is_Files_change ev"
    and later: "\<forall>ev \<in> set evs. \<not> is_Files_change ev" by simp_all
  from Cons.IH [OF later, of "fst (step static impl p ev)"] step_files [OF here, of static impl p]
  show ?case by (simp only: fst_run_Cons)
qed

lemma run_serving:
  "serve_at p \<noteq> Spawned \<Longrightarrow> serve_at (fst (run static impl p evs)) \<noteq> Spawned"
proof (induction evs arbitrary: p)
  case Nil
  then show ?case by simp
next
  case (Cons ev evs)
  from Cons.IH [OF step_serving [OF Cons.prems, of static impl ev]] show ?case
    unfolding fst_run_Cons .
qed

text \<open>A request at a live, serving process is the middleware's run at the process's clock.\<close>

lemma step_Request:
  assumes "exit_code p = None" and "serve_at p \<noteq> Spawned"
  shows "snd (step static impl p (Request r w)) =
           effects_of (RequestLogger (static (fileServer p) (files p)) impl r w (clock p))"
    and "fst (step static impl p (Request r w)) =
           p\<lparr>clock := clock_of (RequestLogger (static (fileServer p) (files p)) impl r w (clock p))\<rparr>"
  using assms by (simp_all add: step_def effects_of_def clock_of_def split: prod.splits)

text \<open>The middleware's run does not depend on the clock reading it starts at.\<close>

lemma RequestLogger_shift:
  assumes "RequestLogger next impl r w t = (oc, w', t', es)"
  shows "RequestLogger next impl r w u = (oc, w', u + (t' - t), es)"
  using assms
proof (cases rule: RequestLogger_cases)
  case (returned calls)
  from RequestLogger_Returned [of "next" r, OF ServeHTTP_shift [OF returned(2), of u]] returned
  show ?thesis by simp
next
  case panicked
  from RequestLogger_Panicked [of "next" r, OF ServeHTTP_shift [OF panicked(2), of u]] panicked
  show ?thesis by simp
qed

lemma RequestLogger_effects_shift:
  "effects_of (RequestLogger next impl r w u) = effects_of (RequestLogger next impl r w t)"
proof -
  obtain oc w' t' es where e: "RequestLogger next impl r w t = (oc, w', t', es)"
    by (metis prod_cases4)
  from RequestLogger_shift [OF e, of u] e show ?thesis by (simp add: effects_of_def)
qed

text \<open>
  C9. The same request served twice by the running process, with no change of the files
  between the two (whatever else happens in between: time passing, other requests, a
  signal), gets the same reply both times: the same status code set and the same
  number of bytes written, and the same \<open>status\<close> and \<open>bytes\<close> in the log.
\<close>

theorem same_request_twice:
  assumes "exit_code p = None" and "serve_at p \<noteq> Spawned"
    and "step static impl p (Request r w) = (p1, out1)"
    and "run static impl p1 evs = (q, outs)"
    and "\<forall>ev \<in> set evs. \<not> is_Files_change ev"
    and "exit_code q = None"
    and "step static impl q (Request r w) = (q1, out2)"
  shows "first_status out2 = first_status out1
       \<and> bytes_written out2 = bytes_written out1
       \<and> map (\<lambda>rec. field rec ''status'') (records out2) =
           map (\<lambda>rec. field rec ''status'') (records out1)
       \<and> map (\<lambda>rec. field rec ''bytes'') (records out2) =
           map (\<lambda>rec. field rec ''bytes'') (records out1)"
proof -
  from step_Request [OF assms(1,2), of static impl r w] assms(3)
  have out1: "out1 = effects_of (RequestLogger (static (fileServer p) (files p)) impl r w (clock p))"
    and p1: "p1 = p\<lparr>clock := clock_of (RequestLogger (static (fileServer p) (files p)) impl r w (clock p))\<rparr>"
    by simp_all
  from p1 assms(2) have serving1: "serve_at p1 \<noteq> Spawned" by simp
  from run_serving [OF serving1, of static impl evs] assms(4)
  have serving: "serve_at q \<noteq> Spawned" by simp
  from run_frame [of static impl p1 evs] assms(4) p1
  have dir: "fileServer q = fileServer p" by simp
  from run_files [OF assms(5), of static impl p1] assms(4) p1
  have fs: "files q = files p" by simp
  from step_Request [OF assms(6) serving, of static impl r w] assms(7) dir fs
  have out2: "out2 = effects_of (RequestLogger (static (fileServer p) (files p)) impl r w (clock q))"
    by simp
  from out1 out2 RequestLogger_effects_shift [of "static (fileServer p) (files p)" impl r w "clock q" "clock p"]
  have "out2 = out1" by simp
  then show ?thesis by simp
qed


section \<open>The sample process, evaluated\<close>

lemma main_start_empty:
  "main_start Map.empty fs t0 =
     \<lparr>cfg = \<lparr>Port = ''8080'', StaticDir = ''./static'', ReadTimeout = 10000000000,
              WriteTimeout = 10000000000, MaxHeaderBytes = 1048576\<rparr>,
      fileServer = ''./static'',
      srv = \<lparr>Addr = '':8080'', ReadTimeout_srv = 10000000000,
              WriteTimeout_srv = 10000000000, MaxHeaderBytes_srv = 1048576\<rparr>,
      serve_at = Spawned, main_at = Await_signal, exit_code = None, clock = t0, files = fs\<rparr>"
  by (simp add: main_start_def loadConfig_def Getenv_def Second_def)

lemma sample_serving_eval:
  "sample_serving =
     \<lparr>cfg = \<lparr>Port = ''8080'', StaticDir = ''./static'', ReadTimeout = 10000000000,
              WriteTimeout = 10000000000, MaxHeaderBytes = 1048576\<rparr>,
      fileServer = ''./static'',
      srv = \<lparr>Addr = '':8080'', ReadTimeout_srv = 10000000000,
              WriteTimeout_srv = 10000000000, MaxHeaderBytes_srv = 1048576\<rparr>,
      serve_at = In_ListenAndServe, main_at = Await_signal, exit_code = None, clock = 0,
      files = sample_files\<rparr>"
  by (simp add: sample_serving_def main_start_empty step_def)

lemma sample_serving_fields:
  "exit_code sample_serving = None"
  "serve_at sample_serving = In_ListenAndServe"
  "main_at sample_serving = Await_signal"
  "fileServer sample_serving = ''./static''"
  "files sample_serving = sample_files"
  "clock sample_serving = 0"
  "Port (cfg sample_serving) = ''8080''"
  by (simp_all add: sample_serving_eval)

lemma serve_files_missing: "serve_files ''./static'' sample_files get_missing = not_found"
  by (simp add: serve_files_def sample_files_def get_missing_def)

lemma RequestLogger_sample_missing:
  "RequestLogger (serve_files ''./static'' sample_files) recorder_impl get_missing NewRecorder t =
     (Returned,
      \<lparr>Code = 404,
       HeaderMap = [''Content-Type'' \<mapsto> [''text/plain; charset=utf-8''],
                    ''X-Content-Type-Options'' \<mapsto> [''nosniff'']],
       Body = not_found_body, wroteHeader = True\<rparr>,
      t + 1500,
      [Called_Header_Set ''Content-Type'' [''text/plain; charset=utf-8''],
       Called_Header_Set ''X-Content-Type-Options'' [''nosniff''],
       Called_WriteHeader 404,
       Called_Write not_found_body 19 None,
       Logged (request_record get_missing 0 1500 0)])"
proof -
  from ServeHTTP_shift [OF ServeHTTP_not_found, of t]
  have "ServeHTTP (serve_files ''./static'' sample_files get_missing) recorder_impl NewRecorder t =
     (Returned,
      \<lparr>Code = 404,
       HeaderMap = [''Content-Type'' \<mapsto> [''text/plain; charset=utf-8''],
                    ''X-Content-Type-Options'' \<mapsto> [''nosniff'']],
       Body = not_found_body, wroteHeader = True\<rparr>,
      t + 1500,
      [Called_Header_Set ''Content-Type'' [''text/plain; charset=utf-8''],
       Called_Header_Set ''X-Content-Type-Options'' [''nosniff''],
       Called_WriteHeader 404,
       Called_Write not_found_body 19 None])"
    by (simp add: serve_files_missing)
  from RequestLogger_Returned [of "serve_files ''./static'' sample_files" get_missing, OF this]
  show ?thesis by simp
qed

lemma step_sample_missing:
  "exit_code p = None \<Longrightarrow> serve_at p \<noteq> Spawned \<Longrightarrow> fileServer p = ''./static''
     \<Longrightarrow> files p = sample_files \<Longrightarrow>
   step serve_files recorder_impl p (Request get_missing NewRecorder) =
     (p\<lparr>clock := clock p + 1500\<rparr>,
      [Called_Header_Set ''Content-Type'' [''text/plain; charset=utf-8''],
       Called_Header_Set ''X-Content-Type-Options'' [''nosniff''],
       Called_WriteHeader 404,
       Called_Write not_found_body 19 None,
       Logged (request_record get_missing 0 1500 0)])"
  by (simp add: step_def RequestLogger_sample_missing)


text \<open>Time passing at a live process.\<close>

lemma step_Tick:
  "exit_code p = None \<Longrightarrow> step static impl p (Tick d) = (p\<lparr>clock := clock p + int d\<rparr>, [])"
  by (simp add: step_def)

text \<open>
  The request for a missing file, three times, with seven nanoseconds passing after the
  first: the first and the third reply are 404 with 19 bytes.
\<close>

theorem same_request_twice_witness:
  "exit_code sample_serving = None
   \<and> serve_at sample_serving = In_ListenAndServe
   \<and> step serve_files recorder_impl sample_serving (Request get_missing NewRecorder) =
       (sample_serving\<lparr>clock := 1500\<rparr>,
        [Called_Header_Set ''Content-Type'' [''text/plain; charset=utf-8''],
         Called_Header_Set ''X-Content-Type-Options'' [''nosniff''],
         Called_WriteHeader 404,
         Called_Write not_found_body 19 None,
         Logged (request_record get_missing 0 1500 0)])
   \<and> fst (run serve_files recorder_impl (sample_serving\<lparr>clock := 1500\<rparr>)
         [Tick 7, Request get_missing NewRecorder]) = sample_serving\<lparr>clock := 3007\<rparr>
   \<and> exit_code (sample_serving\<lparr>clock := 3007\<rparr>) = None
   \<and> step serve_files recorder_impl (sample_serving\<lparr>clock := 3007\<rparr>)
         (Request get_missing NewRecorder) =
       (sample_serving\<lparr>clock := 4507\<rparr>,
        [Called_Header_Set ''Content-Type'' [''text/plain; charset=utf-8''],
         Called_Header_Set ''X-Content-Type-Options'' [''nosniff''],
         Called_WriteHeader 404,
         Called_Write not_found_body 19 None,
         Logged (request_record get_missing 0 1500 0)])
   \<and> first_status
        [Called_Header_Set ''Content-Type'' [''text/plain; charset=utf-8''],
         Called_Header_Set ''X-Content-Type-Options'' [''nosniff''],
         Called_WriteHeader 404,
         Called_Write not_found_body 19 None,
         Logged (request_record get_missing 0 1500 0)] = Some 404
   \<and> bytes_written
        [Called_Header_Set ''Content-Type'' [''text/plain; charset=utf-8''],
         Called_Header_Set ''X-Content-Type-Options'' [''nosniff''],
         Called_WriteHeader 404,
         Called_Write not_found_body 19 None,
         Logged (request_record get_missing 0 1500 0)] = 19"
proof -
  let ?out = "[Called_Header_Set ''Content-Type'' [''text/plain; charset=utf-8''],
         Called_Header_Set ''X-Content-Type-Options'' [''nosniff''],
         Called_WriteHeader 404,
         Called_Write not_found_body 19 None,
         Logged (request_record get_missing 0 1500 0)]"
  have h1: "exit_code sample_serving = None"
    and h2: "serve_at sample_serving \<noteq> Spawned"
    by (simp_all add: sample_serving_fields)
  have h3: "step serve_files recorder_impl sample_serving (Request get_missing NewRecorder) =
      (sample_serving\<lparr>clock := 1500\<rparr>, ?out)"
    by (simp add: step_sample_missing sample_serving_fields)
  have h4: "run serve_files recorder_impl (sample_serving\<lparr>clock := 1500\<rparr>)
      [Tick 7, Request get_missing NewRecorder] = (sample_serving\<lparr>clock := 3007\<rparr>, ?out)"
    by (simp add: step_Tick step_sample_missing sample_serving_fields)
  have h5: "\<forall>ev \<in> set [Tick 7, Request get_missing NewRecorder :: (recorder, string \<rightharpoonup> byte list) event].
      \<not> is_Files_change ev"
    by simp
  have h6: "exit_code (sample_serving\<lparr>clock := 3007\<rparr>) = None"
    by (simp add: sample_serving_fields)
  have h7: "step serve_files recorder_impl (sample_serving\<lparr>clock := 3007\<rparr>)
      (Request get_missing NewRecorder) = (sample_serving\<lparr>clock := 4507\<rparr>, ?out)"
    by (simp add: step_sample_missing sample_serving_fields)
  from same_request_twice [OF h1 h2 h3 h4 h5 h6 h7] h3 h4 h7
  show ?thesis by (simp add: sample_serving_fields)
qed

section \<open>Shutdown and exit codes\<close>

text \<open>
  C4. When \<^verbatim>\<open>Shutdown\<close> returns in the running process, \<^verbatim>\<open>main\<close> returns and the exit code
  is 0, both when \<^verbatim>\<open>Shutdown\<close> returned \<^verbatim>\<open>nil\<close> (drained) and when it returned an error
  (the deadline passed: the error is logged as a forced shutdown, and the code is still
  0). When \<^verbatim>\<open>ListenAndServe\<close> returns an error other than \<^verbatim>\<open>http.ErrServerClosed\<close> in the
  running process, the error is logged and the exit code is 1; \<^verbatim>\<open>http.ErrServerClosed\<close>
  itself, the mark of an intended shutdown, does not end the process. An exit code once
  set stays.
\<close>

theorem exit_codes:
  "(exit_code p = None \<and> main_at p = In_Shutdown d \<longrightarrow>
       exit_code (fst (step static impl p (Shutdown_returns None))) = Some 0
     \<and> snd (step static impl p (Shutdown_returns None)) =
         [Logged (logger_Info ''Server exited properly'' [])]
     \<and> exit_code (fst (step static impl p (Shutdown_returns (Some e)))) = Some 0
     \<and> snd (step static impl p (Shutdown_returns (Some e))) =
         [Logged (logger_Error ''Server forced to shutdown'' [slog_Any ''error'' e]),
          Logged (logger_Info ''Server exited properly'' [])])
   \<and> (exit_code p = None \<and> serve_at p = In_ListenAndServe \<and> e \<noteq> ErrServerClosed \<longrightarrow>
       exit_code (fst (step static impl p (ListenAndServe_returns (Some e)))) = Some 1
     \<and> snd (step static impl p (ListenAndServe_returns (Some e))) =
         [Logged (logger_Error ''Could not listen on''
            [slog_String ''addr'' (Port (cfg p)), slog_Any ''error'' e])])
   \<and> (exit_code p = None \<longrightarrow>
       exit_code (fst (step static impl p (ListenAndServe_returns (Some ErrServerClosed)))) = None)
   \<and> (exit_code p \<noteq> None \<longrightarrow> step static impl p ev = (p, []))"
proof -
  have shut: "exit_code p = None \<and> main_at p = In_Shutdown d \<longrightarrow>
       exit_code (fst (step static impl p (Shutdown_returns None))) = Some 0
     \<and> snd (step static impl p (Shutdown_returns None)) =
         [Logged (logger_Info ''Server exited properly'' [])]
     \<and> exit_code (fst (step static impl p (Shutdown_returns (Some e)))) = Some 0
     \<and> snd (step static impl p (Shutdown_returns (Some e))) =
         [Logged (logger_Error ''Server forced to shutdown'' [slog_Any ''error'' e]),
          Logged (logger_Info ''Server exited properly'' [])]"
    by (simp add: step_def)
  have listen: "exit_code p = None \<and> serve_at p = In_ListenAndServe \<and> e \<noteq> ErrServerClosed \<longrightarrow>
       exit_code (fst (step static impl p (ListenAndServe_returns (Some e)))) = Some 1
     \<and> snd (step static impl p (ListenAndServe_returns (Some e))) =
         [Logged (logger_Error ''Could not listen on''
            [slog_String ''addr'' (Port (cfg p)), slog_Any ''error'' e])]"
    by (simp add: step_def errors_Is_def)
  have closed: "exit_code p = None \<longrightarrow>
       exit_code (fst (step static impl p (ListenAndServe_returns (Some ErrServerClosed)))) = None"
    by (simp add: step_def errors_Is_def)
  have final: "exit_code p \<noteq> None \<longrightarrow> step static impl p ev = (p, [])"
    by (simp add: step_def)
  from shut listen closed final show ?thesis by blast
qed


text \<open>A signal at a waiting process.\<close>

lemma step_Signal:
  "exit_code p = None \<Longrightarrow> main_at p = Await_signal \<Longrightarrow>
   step static impl p (Signal_arrives sig) =
     (p\<lparr>main_at := In_Shutdown (5 * Second)\<rparr>,
      [Logged (logger_Info ''Server is shutting down...''
         [slog_String ''signal'' (Signal_String sig)])])"
  by (simp add: step_def)

text \<open>
  From the serving process: \<^verbatim>\<open>SIGTERM\<close>, then \<^verbatim>\<open>Shutdown\<close> returning \<^verbatim>\<open>nil\<close> or the
  deadline error; and \<^verbatim>\<open>ListenAndServe\<close> failing to bind.
\<close>

theorem exit_codes_witness:
  "step serve_files recorder_impl sample_serving (Signal_arrives SIGTERM) =
       (sample_serving\<lparr>main_at := In_Shutdown (5 * Second)\<rparr>,
        [Logged (logger_Info ''Server is shutting down...'' [slog_String ''signal'' ''terminated''])])
   \<and> exit_code (sample_serving\<lparr>main_at := In_Shutdown (5 * Second)\<rparr>) = None
   \<and> main_at (sample_serving\<lparr>main_at := In_Shutdown (5 * Second)\<rparr>) = In_Shutdown (5 * Second)
   \<and> exit_code (fst (step serve_files recorder_impl
         (sample_serving\<lparr>main_at := In_Shutdown (5 * Second)\<rparr>) (Shutdown_returns None))) = Some 0
   \<and> exit_code (fst (step serve_files recorder_impl
         (sample_serving\<lparr>main_at := In_Shutdown (5 * Second)\<rparr>)
         (Shutdown_returns (Some (OtherError ''context deadline exceeded''))))) = Some 0
   \<and> snd (step serve_files recorder_impl
         (sample_serving\<lparr>main_at := In_Shutdown (5 * Second)\<rparr>)
         (Shutdown_returns (Some (OtherError ''context deadline exceeded'')))) =
       [Logged (logger_Error ''Server forced to shutdown''
          [slog_Any ''error'' (OtherError ''context deadline exceeded'')]),
        Logged (logger_Info ''Server exited properly'' [])]
   \<and> exit_code sample_serving = None
   \<and> serve_at sample_serving = In_ListenAndServe
   \<and> OtherError ''listen tcp :8080: bind: address already in use'' \<noteq> ErrServerClosed
   \<and> exit_code (fst (step serve_files recorder_impl sample_serving
         (ListenAndServe_returns
            (Some (OtherError ''listen tcp :8080: bind: address already in use''))))) = Some 1
   \<and> snd (step serve_files recorder_impl sample_serving
         (ListenAndServe_returns
            (Some (OtherError ''listen tcp :8080: bind: address already in use'')))) =
       [Logged (logger_Error ''Could not listen on''
          [slog_String ''addr'' ''8080'',
           slog_Any ''error'' (OtherError ''listen tcp :8080: bind: address already in use'')])]"
proof -
  have a: "step serve_files recorder_impl sample_serving (Signal_arrives SIGTERM) =
       (sample_serving\<lparr>main_at := In_Shutdown (5 * Second)\<rparr>,
        [Logged (logger_Info ''Server is shutting down...'' [slog_String ''signal'' ''terminated''])])"
    by (simp add: step_Signal sample_serving_fields)
  have b: "exit_code (sample_serving\<lparr>main_at := In_Shutdown (5 * Second)\<rparr>) = None
      \<and> main_at (sample_serving\<lparr>main_at := In_Shutdown (5 * Second)\<rparr>) = In_Shutdown (5 * Second)"
    by (simp add: sample_serving_fields)
  have c: "exit_code sample_serving = None \<and> serve_at sample_serving = In_ListenAndServe
      \<and> OtherError ''listen tcp :8080: bind: address already in use'' \<noteq> ErrServerClosed"
    by (simp add: sample_serving_fields)
  from a b c
    exit_codes [of "sample_serving\<lparr>main_at := In_Shutdown (5 * Second)\<rparr>" "5 * Second"
      serve_files recorder_impl "OtherError ''context deadline exceeded''"]
    exit_codes [of sample_serving "5 * Second" serve_files recorder_impl
      "OtherError ''listen tcp :8080: bind: address already in use''"]
  show ?thesis by (simp add: sample_serving_fields)
qed

text \<open>
  C7. \<^verbatim>\<open>SIGINT\<close> and \<^verbatim>\<open>SIGTERM\<close> lead to the same state, so every later step and
  everything put out later is the same for both. When \<^verbatim>\<open>main\<close> is waiting, either signal
  is logged under its own name and \<^verbatim>\<open>Shutdown\<close> is entered with a deadline of
  \<^verbatim>\<open>5*time.Second\<close>, 5000000000 ns.
\<close>

theorem signals_alike:
  "fst (step static impl p (Signal_arrives SIGINT)) = fst (step static impl p (Signal_arrives SIGTERM))
   \<and> run static impl (fst (step static impl p (Signal_arrives SIGINT))) evs =
       run static impl (fst (step static impl p (Signal_arrives SIGTERM))) evs
   \<and> (exit_code p = None \<and> main_at p = Await_signal \<longrightarrow>
        main_at (fst (step static impl p (Signal_arrives sig))) = In_Shutdown (5 * Second)
      \<and> 5 * Second = 5000000000
      \<and> snd (step static impl p (Signal_arrives sig)) =
          [Logged (logger_Info ''Server is shutting down...''
             [slog_String ''signal'' (Signal_String sig)])])"
proof -
  have same: "fst (step static impl p (Signal_arrives SIGINT)) =
      fst (step static impl p (Signal_arrives SIGTERM))"
    by (simp add: step_def)
  have "exit_code p = None \<and> main_at p = Await_signal \<longrightarrow>
        main_at (fst (step static impl p (Signal_arrives sig))) = In_Shutdown (5 * Second)
      \<and> 5 * Second = 5000000000
      \<and> snd (step static impl p (Signal_arrives sig)) =
          [Logged (logger_Info ''Server is shutting down...''
             [slog_String ''signal'' (Signal_String sig)])]"
    by (simp add: step_Signal Second_def)
  with same show ?thesis by simp
qed

text \<open>At the serving process.\<close>

theorem signals_alike_witness:
  "exit_code sample_serving = None
   \<and> main_at sample_serving = Await_signal
   \<and> fst (step serve_files recorder_impl sample_serving (Signal_arrives SIGINT)) =
       sample_serving\<lparr>main_at := In_Shutdown 5000000000\<rparr>
   \<and> fst (step serve_files recorder_impl sample_serving (Signal_arrives SIGTERM)) =
       sample_serving\<lparr>main_at := In_Shutdown 5000000000\<rparr>
   \<and> snd (step serve_files recorder_impl sample_serving (Signal_arrives SIGINT)) =
       [Logged (logger_Info ''Server is shutting down...'' [slog_String ''signal'' ''interrupt''])]
   \<and> snd (step serve_files recorder_impl sample_serving (Signal_arrives SIGTERM)) =
       [Logged (logger_Info ''Server is shutting down...'' [slog_String ''signal'' ''terminated''])]
   \<and> run serve_files recorder_impl
        (fst (step serve_files recorder_impl sample_serving (Signal_arrives SIGINT)))
        [Shutdown_returns None] =
      run serve_files recorder_impl
        (fst (step serve_files recorder_impl sample_serving (Signal_arrives SIGTERM)))
        [Shutdown_returns None]"
proof -
  have h: "exit_code sample_serving = None \<and> main_at sample_serving = Await_signal"
    by (simp add: sample_serving_fields)
  have s: "fst (step serve_files recorder_impl sample_serving (Signal_arrives SIGTERM)) =
       sample_serving\<lparr>main_at := In_Shutdown 5000000000\<rparr>"
    by (simp add: step_Signal sample_serving_fields Second_def)
  from h s
    signals_alike [of serve_files recorder_impl sample_serving "[Shutdown_returns None]" SIGINT]
    signals_alike [of serve_files recorder_impl sample_serving "[Shutdown_returns None]" SIGTERM]
  show ?thesis by simp
qed

section \<open>The configuration is fixed\<close>

text \<open>
  C8. The configuration is what \<^verbatim>\<open>loadConfig\<close> returned at the start, after any events
  whatever: every field of \<^verbatim>\<open>cfg\<close> is unchanged, and so are the values the file server
  and the \<^verbatim>\<open>http.Server\<close> were built from it (directory, address, timeouts, header
  limit).
\<close>

theorem Config_never_changes:
  "cfg (fst (run static impl (main_start env fs t0) evs)) = loadConfig env
   \<and> fileServer (fst (run static impl (main_start env fs t0) evs)) = StaticDir (loadConfig env)
   \<and> srv (fst (run static impl (main_start env fs t0) evs)) =
       \<lparr>Addr = '':'' @ Port (loadConfig env),
        ReadTimeout_srv = ReadTimeout (loadConfig env),
        WriteTimeout_srv = WriteTimeout (loadConfig env),
        MaxHeaderBytes_srv = MaxHeaderBytes (loadConfig env)\<rparr>"
  using run_frame [of static impl "main_start env fs t0" evs]
  by (simp add: main_start_def Let_def)

text \<open>With \<^verbatim>\<open>PORT=9090\<close>, through serving, a signal and the shutdown.\<close>

theorem Config_never_changes_witness:
  "cfg (fst (run serve_files recorder_impl
        (main_start [''PORT'' \<mapsto> ''9090''] sample_files 0)
        [Goroutine_runs, Request get_missing NewRecorder, Signal_arrives SIGINT,
         Request get_missing NewRecorder, Shutdown_returns None])) =
     \<lparr>Port = ''9090'', StaticDir = ''./static'', ReadTimeout = 10000000000,
      WriteTimeout = 10000000000, MaxHeaderBytes = 1048576\<rparr>
   \<and> exit_code (fst (run serve_files recorder_impl
        (main_start [''PORT'' \<mapsto> ''9090''] sample_files 0)
        [Goroutine_runs, Request get_missing NewRecorder, Signal_arrives SIGINT,
         Request get_missing NewRecorder, Shutdown_returns None])) = Some 0"
proof -
  have c: "loadConfig [''PORT'' \<mapsto> ''9090''] =
     \<lparr>Port = ''9090'', StaticDir = ''./static'', ReadTimeout = 10000000000,
      WriteTimeout = 10000000000, MaxHeaderBytes = 1048576\<rparr>"
    by (simp add: loadConfig_def Getenv_def Second_def)
  have s: "main_start [''PORT'' \<mapsto> ''9090''] sample_files 0 =
     \<lparr>cfg = \<lparr>Port = ''9090'', StaticDir = ''./static'', ReadTimeout = 10000000000,
              WriteTimeout = 10000000000, MaxHeaderBytes = 1048576\<rparr>,
      fileServer = ''./static'',
      srv = \<lparr>Addr = '':9090'', ReadTimeout_srv = 10000000000,
              WriteTimeout_srv = 10000000000, MaxHeaderBytes_srv = 1048576\<rparr>,
      serve_at = Spawned, main_at = Await_signal, exit_code = None, clock = 0,
      files = sample_files\<rparr>"
    by (simp add: main_start_def c)
  have e: "exit_code (fst (run serve_files recorder_impl
        (main_start [''PORT'' \<mapsto> ''9090''] sample_files 0)
        [Goroutine_runs, Request get_missing NewRecorder, Signal_arrives SIGINT,
         Request get_missing NewRecorder, Shutdown_returns None])) = Some 0"
    by (simp add: s step_def RequestLogger_sample_missing)
  from Config_never_changes [of serve_files recorder_impl "[''PORT'' \<mapsto> ''9090'']" sample_files 0
      "[Goroutine_runs, Request get_missing NewRecorder, Signal_arrives SIGINT,
         Request get_missing NewRecorder, Shutdown_returns None]"] c e
  show ?thesis by simp
qed

end
